theory Spec2Isabelle
  imports Main "HOL-Library.Word" "HOL-Library.Char_ord" "HOL-Library.List_Lexorder"
begin

unbundle bit_operations_syntax

section \<open>Feed Service: posts router (src/routers/posts.py, src/model.py)\<close>

text \<open>
  A shallow embedding of the posts router. Python values that reach \<open>json.dumps\<close> are
  a datatype, dictionaries are association lists in insertion order (keys distinct, as
  in a Python dict), the relational store is a record of three tables, a connection is
  the pair of the committed store and the store the open transaction sees, and every
  \<open>raise\<close> is a value on the left of a sum.

  Python strings are modelled by \<open>string\<close> with one \<open>char\<close> per code point, so the
  model covers code points 0 to 255.
\<close>

subsection \<open>Python built-ins used by the router\<close>

text \<open>\<open>str(n)\<close> for a Python int: decimal digits, a leading minus sign below zero.\<close>

fun digits_nat :: "nat \<Rightarrow> string" where
  "digits_nat n =
     (if n < 10 then [char_of (48 + n)]
      else digits_nat (n div 10) @ [char_of (48 + n mod 10)])"

declare digits_nat.simps [simp del]

definition str_int :: "int \<Rightarrow> string" where
  "str_int i = (if i < 0 then CHR ''-'' # digits_nat (nat (- i)) else digits_nat (nat i))"

text \<open>\<open>sep.join(xs)\<close>.\<close>

fun join :: "string \<Rightarrow> string list \<Rightarrow> string" where
  "join sep [] = []"
| "join sep [x] = x"
| "join sep (x # y # ys) = x @ sep @ join sep (y # ys)"

text \<open>\<open>s.strip('"')\<close>: every leading and every trailing double quote is removed.\<close>

definition strip_quotes :: "string \<Rightarrow> string" where
  "strip_quotes s =
     rev (dropWhile (\<lambda>c. c = CHR 0x22) (rev (dropWhile (\<lambda>c. c = CHR 0x22) s)))"

text \<open>Zero padding of the \<open>%02d\<close>, \<open>%04d\<close> and \<open>%06d\<close> formats.\<close>

definition zpad :: "nat \<Rightarrow> nat \<Rightarrow> string" where
  "zpad w n = replicate (w - length (digits_nat n)) (CHR ''0'') @ digits_nat n"

text \<open>
  A naive \<open>datetime\<close>, as the MySQL connector returns for a timestamp column.
  \<open>str(d)\<close> is \<open>d.isoformat(sep=' ')\<close>; the fraction is printed only when the
  microseconds are not zero.
\<close>

record datetime =
  year :: nat
  month :: nat
  day :: nat
  hour :: nat
  minute :: nat
  second :: nat
  microsecond :: nat

definition isoformat_sep :: "char \<Rightarrow> datetime \<Rightarrow> string" where
  "isoformat_sep sep d =
     zpad 4 (year d) @ ''-'' @ zpad 2 (month d) @ ''-'' @ zpad 2 (day d) @ [sep]
     @ zpad 2 (hour d) @ '':'' @ zpad 2 (minute d) @ '':'' @ zpad 2 (second d)
     @ (if microsecond d \<noteq> 0 then ''.'' @ zpad 6 (microsecond d) else [])"

definition isoformat :: "datetime \<Rightarrow> string" where
  "isoformat d = isoformat_sep (CHR ''T'') d"

definition str_datetime :: "datetime \<Rightarrow> string" where
  "str_datetime d = isoformat_sep (CHR '' '') d"

subsection \<open>Values and \<open>json.dumps(data, sort_keys=True, default=str)\<close>\<close>

datatype pyval =
    PNone
  | PBool bool
  | PInt int
  | PStr string
  | PDatetime datetime
  | PList "pyval list"
  | PDict "(string \<times> pyval) list"

type_synonym pydict = "(string \<times> pyval) list"

text \<open>\<open>d[k] = v\<close>: an existing key keeps its position, a new key goes last.\<close>

fun dict_set :: "pydict \<Rightarrow> string \<Rightarrow> pyval \<Rightarrow> pydict" where
  "dict_set [] k v = [(k, v)]"
| "dict_set ((k', v') # d) k v =
     (if k' = k then (k, v) # d else (k', v') # dict_set d k v)"

text \<open>\<open>d.get(k)\<close>.\<close>

definition dict_get :: "pydict \<Rightarrow> string \<Rightarrow> pyval option" where
  "dict_get d k = map_of d k"

definition hex_digit :: "nat \<Rightarrow> char" where
  "hex_digit n = (if n < 10 then char_of (48 + n) else char_of (87 + n))"

text \<open>
  The string encoder of \<open>json\<close> with \<open>ensure_ascii\<close> on (the default): the quote,
  the backslash and the five short escapes, and \<open>\<^verbatim>\<open>\u00XX\<close>\<close> for every other
  character outside the printable range from space to tilde.
\<close>

definition json_escape_char :: "char \<Rightarrow> string" where
  "json_escape_char c =
     (if c = CHR 0x22 then [CHR 0x5C, CHR 0x22]
      else if c = CHR 0x5C then [CHR 0x5C, CHR 0x5C]
      else if c = CHR 0x0A then [CHR 0x5C, CHR ''n'']
      else if c = CHR 0x0D then [CHR 0x5C, CHR ''r'']
      else if c = CHR 0x09 then [CHR 0x5C, CHR ''t'']
      else if c = CHR 0x08 then [CHR 0x5C, CHR ''b'']
      else if c = CHR 0x0C then [CHR 0x5C, CHR ''f'']
      else if (of_char c :: nat) < 32 \<or> 126 < (of_char c :: nat)
        then [CHR 0x5C, CHR ''u'', CHR ''0'', CHR ''0'',
              hex_digit ((of_char c :: nat) div 16), hex_digit ((of_char c :: nat) mod 16)]
      else [c])"

definition json_string :: "string \<Rightarrow> string" where
  "json_string s = [CHR 0x22] @ concat (map json_escape_char s) @ [CHR 0x22]"

text \<open>
  The encoder proper. With \<open>sort_keys\<close> the items of a dictionary are sorted by key
  (code-point order) before they are written; a \<open>datetime\<close> is not serialisable, so
  \<open>default=str\<close> turns it into \<open>str(d)\<close>, which is then written as a string.
\<close>

fun dumps :: "pyval \<Rightarrow> string" where
  "dumps PNone = ''null''"
| "dumps (PBool b) = (if b then ''true'' else ''false'')"
| "dumps (PInt i) = str_int i"
| "dumps (PStr s) = json_string s"
| "dumps (PDatetime d) = json_string (str_datetime d)"
| "dumps (PList xs) = ''['' @ join '', '' (map dumps xs) @ '']''"
| "dumps (PDict kvs) =
     ''{'' @ join '', ''
        (map (\<lambda>kv. json_string (fst kv) @ '': '' @ snd kv)
           (sort_key fst (map (\<lambda>(k, v). (k, dumps v)) kvs))) @ ''}''"

subsection \<open>\<open>hashlib.md5(...).hexdigest()\<close>\<close>

type_synonym u32 = "32 word"

definition md5_K :: "u32 list" where
  "md5_K =
    [0xd76aa478, 0xe8c7b756, 0x242070db, 0xc1bdceee, 0xf57c0faf, 0x4787c62a, 0xa8304613, 0xfd469501,
     0x698098d8, 0x8b44f7af, 0xffff5bb1, 0x895cd7be, 0x6b901122, 0xfd987193, 0xa679438e, 0x49b40821,
     0xf61e2562, 0xc040b340, 0x265e5a51, 0xe9b6c7aa, 0xd62f105d, 0x02441453, 0xd8a1e681, 0xe7d3fbc8,
     0x21e1cde6, 0xc33707d6, 0xf4d50d87, 0x455a14ed, 0xa9e3e905, 0xfcefa3f8, 0x676f02d9, 0x8d2a4c8a,
     0xfffa3942, 0x8771f681, 0x6d9d6122, 0xfde5380c, 0xa4beea44, 0x4bdecfa9, 0xf6bb4b60, 0xbebfbc70,
     0x289b7ec6, 0xeaa127fa, 0xd4ef3085, 0x04881d05, 0xd9d4d039, 0xe6db99e5, 0x1fa27cf8, 0xc4ac5665,
     0xf4292244, 0x432aff97, 0xab9423a7, 0xfc93a039, 0x655b59c3, 0x8f0ccc92, 0xffeff47d, 0x85845dd1,
     0x6fa87e4f, 0xfe2ce6e0, 0xa3014314, 0x4e0811a1, 0xf7537e82, 0xbd3af235, 0x2ad7d2bb, 0xeb86d391]"

definition md5_s :: "nat list" where
  "md5_s =
    [7, 12, 17, 22, 7, 12, 17, 22, 7, 12, 17, 22, 7, 12, 17, 22,
     5, 9, 14, 20, 5, 9, 14, 20, 5, 9, 14, 20, 5, 9, 14, 20,
     4, 11, 16, 23, 4, 11, 16, 23, 4, 11, 16, 23, 4, 11, 16, 23,
     6, 10, 15, 21, 6, 10, 15, 21, 6, 10, 15, 21, 6, 10, 15, 21]"

definition rotl32 :: "u32 \<Rightarrow> nat \<Rightarrow> u32" where
  "rotl32 x n = push_bit n x OR drop_bit (32 - n) x"

type_synonym md5_state = "u32 \<times> u32 \<times> u32 \<times> u32"

definition md5_round :: "u32 list \<Rightarrow> md5_state \<Rightarrow> nat \<Rightarrow> md5_state" where
  "md5_round M st i =
     (case st of (a, b, c, d) \<Rightarrow>
        let (f, g) =
              (if i < 16 then ((b AND c) OR (NOT b AND d), i)
               else if i < 32 then ((d AND b) OR (NOT d AND c), (5 * i + 1) mod 16)
               else if i < 48 then (b XOR c XOR d, (3 * i + 5) mod 16)
               else (c XOR (b OR NOT d), (7 * i) mod 16));
            f' = f + a + md5_K ! i + M ! g
        in (d, b + rotl32 f' (md5_s ! i), b, c))"

definition md5_block :: "md5_state \<Rightarrow> u32 list \<Rightarrow> md5_state" where
  "md5_block st M =
     (case st of (a0, b0, c0, d0) \<Rightarrow>
        case foldl (md5_round M) st [0..<64] of (a, b, c, d) \<Rightarrow>
          (a0 + a, b0 + b, c0 + c, d0 + d))"

text \<open>Little-endian words of a byte sequence whose length is a multiple of four.\<close>

fun le_words :: "nat list \<Rightarrow> u32 list" where
  "le_words (b0 # b1 # b2 # b3 # bs) =
     (of_nat (b0 + 256 * b1 + 65536 * b2 + 16777216 * b3)) # le_words bs"
| "le_words _ = []"

fun le_bytes :: "nat \<Rightarrow> nat \<Rightarrow> nat list" where
  "le_bytes 0 x = []"
| "le_bytes (Suc k) x = (x mod 256) # le_bytes k (x div 256)"

definition md5_pad :: "nat list \<Rightarrow> nat list" where
  "md5_pad bs =
     bs @ [128] @ replicate ((119 - length bs mod 64) mod 64) 0
        @ le_bytes 8 ((8 * length bs) mod 2 ^ 64)"

fun chunks16 :: "nat \<Rightarrow> u32 list \<Rightarrow> u32 list list" where
  "chunks16 0 ws = []"
| "chunks16 (Suc n) ws = take 16 ws # chunks16 n (drop 16 ws)"

definition md5_digest :: "nat list \<Rightarrow> nat list" where
  "md5_digest bs =
     (let ws = le_words (md5_pad bs);
          st0 = (0x67452301, 0xefcdab89, 0x98badcfe, 0x10325476)
      in case foldl md5_block st0 (chunks16 (length ws div 16) ws) of (a, b, c, d) \<Rightarrow>
           le_bytes 4 (unat a) @ le_bytes 4 (unat b) @ le_bytes 4 (unat c) @ le_bytes 4 (unat d))"

definition hex_byte :: "nat \<Rightarrow> string" where
  "hex_byte b = [hex_digit (b div 16 mod 16), hex_digit (b mod 16)]"

definition md5_hexdigest :: "nat list \<Rightarrow> string" where
  "md5_hexdigest bs = concat (map hex_byte (md5_digest bs))"

text \<open>\<open>s.encode()\<close>: UTF-8, one byte below 128 and two bytes for 128 to 255.\<close>

definition encode_utf8 :: "string \<Rightarrow> nat list" where
  "encode_utf8 s =
     concat (map (\<lambda>c. let n = (of_char c :: nat) in
                       if n < 128 then [n] else [192 + n div 64, 128 + n mod 64]) s)"

subsection \<open>Helpers of the router\<close>

text \<open>\<open>generate_etag\<close> (posts.py, lines 40 to 43).\<close>

definition generate_etag :: "pydict \<Rightarrow> string" where
  "generate_etag data = md5_hexdigest (encode_utf8 (dumps (PDict data)))"

text \<open>\<open>add_links\<close> (lines 49 to 56); the router always calls it with the default base.\<close>

definition add_links :: "int \<Rightarrow> string \<Rightarrow> pydict" where
  "add_links post_id base_url =
     [(''self'', PDict [(''href'', PStr (base_url @ ''/posts/'' @ str_int post_id))]),
      (''collection'', PDict [(''href'', PStr (base_url @ ''/posts''))]),
      (''interests'',
         PDict [(''href'', PStr (base_url @ ''/posts/'' @ str_int post_id @ ''/interests''))]),
      (''author'', PDict [(''href'', PStr (base_url @ ''/users/'' @ str_int post_id))])]"

subsection \<open>Requests, responses and errors\<close>

text \<open>
  An \<open>HTTPException\<close> carries its status code and detail. Any other exception that
  leaves a handler is answered by the framework with status 500.
\<close>

datatype error = HTTPException nat string | Unhandled string

fun status_of :: "error \<Rightarrow> nat" where
  "status_of (HTTPException code detail) = code"
| "status_of (Unhandled exn) = 500"

record response =
  status :: nat
  body :: "pyval option"
  headers_out :: "(string \<times> string) list"

type_synonym headers = "(string \<times> string) list"

definition lower_char :: "char \<Rightarrow> char" where
  "lower_char c =
     (if 65 \<le> (of_char c :: nat) \<and> (of_char c :: nat) \<le> 90
      then char_of ((of_char c :: nat) + 32) else c)"

text \<open>\<open>request.headers.get(name)\<close>: header names compare without regard to case;
  the first matching header wins.\<close>

definition headers_get :: "headers \<Rightarrow> string \<Rightarrow> string option" where
  "headers_get hs name =
     map_of (map (\<lambda>(k, v). (map lower_char k, v)) hs) (map lower_char name)"

text \<open>Python's \<open>a or b\<close> on optional strings: \<open>None\<close> and the empty string are falsy.\<close>

definition truthy :: "string option \<Rightarrow> bool" where
  "truthy a = (case a of None \<Rightarrow> False | Some s \<Rightarrow> s \<noteq> [])"

definition py_or :: "string option \<Rightarrow> string option \<Rightarrow> string option" where
  "py_or a b = (if truthy a then a else b)"

text \<open>\<open>get_firebase_uid_from_header\<close> (lines 30 to 35).\<close>

definition get_firebase_uid_from_header :: "headers \<Rightarrow> error + string" where
  "get_firebase_uid_from_header hs =
     (let firebase_uid = py_or (headers_get hs ''x-firebase-uid'')
                               (headers_get hs ''X-Firebase-Uid'')
      in case firebase_uid of
           Some u \<Rightarrow>
             if u \<noteq> [] then Inr u
             else Inl (HTTPException 401
                        ''Authentication required - x-firebase-uid header missing'')
         | None \<Rightarrow>
             Inl (HTTPException 401
                    ''Authentication required - x-firebase-uid header missing''))"

subsection \<open>The relational store\<close>

text \<open>
  The three tables the queries name. The schema is not part of the sources; the columns
  are those the statements read and write.
\<close>

record post_row =
  post_id :: int
  title :: string
  body_text :: "string option"
  image_url :: "string option"
  created_by :: int
  created_at :: datetime

record db =
  Posts :: "post_row list"
  Interests :: "(int \<times> string) list"
  PostInterests :: "(int \<times> int) list"
  next_post_id :: int

text \<open>
  A cursor with \<open>dictionary=True\<close> returns a row as a dictionary keyed by the selected
  columns, in the order of the \<open>SELECT\<close> list.
\<close>

definition opt_str :: "string option \<Rightarrow> pyval" where
  "opt_str v = (case v of None \<Rightarrow> PNone | Some s \<Rightarrow> PStr s)"

definition row_dict :: "post_row \<Rightarrow> pydict" where
  "row_dict p =
     [(''post_id'', PInt (post_id p)), (''title'', PStr (title p)),
      (''body'', opt_str (body_text p)), (''image_url'', opt_str (image_url p)),
      (''created_by'', PInt (created_by p)), (''created_at'', PDatetime (created_at p))]"

text \<open>\<open>SELECT ... FROM Posts WHERE post_id = %s\<close> followed by \<open>fetchone()\<close>.\<close>

definition fetch_post :: "db \<Rightarrow> int \<Rightarrow> post_row option" where
  "fetch_post d pid = find (\<lambda>p. post_id p = pid) (Posts d)"

text \<open>
  \<open>get_post_interests\<close> (lines 62 to 75): the join of Interests with the association
  rows of the post. It opens a connection of its own, so it reads the committed store.
  SQL fixes no order for the result; the model lists it in the order of Interests.
\<close>

definition get_post_interests :: "db \<Rightarrow> int \<Rightarrow> pyval list" where
  "get_post_interests d pid =
     concat (map (\<lambda>(iid, iname).
        map (\<lambda>_. PDict [(''interest_id'', PInt iid), (''interest_name'', PStr iname)])
          (filter (\<lambda>(p, i). p = pid \<and> i = iid) (PostInterests d))) (Interests d))"

text \<open>The conversion every handler applies to \<open>created_at\<close> before it answers.\<close>

definition convert_created_at :: "pydict \<Rightarrow> pydict" where
  "convert_created_at post =
     (case dict_get post ''created_at'' of
        Some (PDatetime t) \<Rightarrow> dict_set post ''created_at'' (PStr (isoformat t))
      | _ \<Rightarrow> post)"

definition quoted :: "string \<Rightarrow> string" where
  "quoted etag = [CHR 0x22] @ etag @ [CHR 0x22]"

subsection \<open>The collection query (\<open>get_posts\<close>, lines 81 to 170)\<close>

text \<open>
  Modelled from the spec: the collation of the text columns belongs to the schema, which
  is not in the sources; the spec gives the match as case-insensitive. Two characters
  are equal when they agree after folding the letters A to Z.
\<close>

definition ci_eq :: "char \<Rightarrow> char \<Rightarrow> bool" where
  "ci_eq c d = (lower_char c = lower_char d)"

text \<open>
  The \<open>LIKE\<close> operator: in the pattern a percent sign stands for any run of characters,
  an underscore for exactly one, and a backslash takes the next character literally.
  The first argument is the pattern.
\<close>

fun like_match :: "string \<Rightarrow> string \<Rightarrow> bool" where
  "like_match [] t = (t = [])"
| "like_match (c # p) [] = (c = CHR ''%'' \<and> like_match p [])"
| "like_match (c # p) (d # t) =
     (if c = CHR ''%'' then like_match p (d # t) \<or> like_match (c # p) t
      else if c = CHR ''_'' then like_match p t
      else if c = CHR 0x5C then
        (case p of [] \<Rightarrow> d = CHR 0x5C \<and> t = []
         | e # p' \<Rightarrow> ci_eq e d \<and> like_match p' t)
      else ci_eq c d \<and> like_match p t)"

text \<open>The entries of \<open>where_clauses\<close>, each with the parameters it adds to \<open>params\<close>.\<close>

datatype where_clause =
    InterestIs int
  | CreatedByIs int
  | TitleOrBodyLike string string

fun where_holds :: "db \<Rightarrow> post_row \<Rightarrow> where_clause \<Rightarrow> bool" where
  "where_holds d p (InterestIs i) = ((post_id p, i) \<in> set (PostInterests d))"
| "where_holds d p (CreatedByIs u) = (created_by p = u)"
| "where_holds d p (TitleOrBodyLike pat1 pat2) =
     (like_match pat1 (title p) \<or>
      (case body_text p of None \<Rightarrow> False | Some t \<Rightarrow> like_match pat2 t))"

text \<open>Lines 102 to 117. The three guards are Python truth tests: \<open>None\<close>, the integer
  0 and the empty string add no clause.\<close>

definition where_clauses :: "int option \<Rightarrow> int option \<Rightarrow> string option \<Rightarrow> where_clause list" where
  "where_clauses interest_id created_by_q search =
     (case interest_id of Some i \<Rightarrow> if i \<noteq> 0 then [InterestIs i] else [] | None \<Rightarrow> [])
   @ (case created_by_q of Some u \<Rightarrow> if u \<noteq> 0 then [CreatedByIs u] else [] | None \<Rightarrow> [])
   @ (case search of
        Some s \<Rightarrow> if s \<noteq> [] then [TitleOrBodyLike (''%'' @ s @ ''%'') (''%'' @ s @ ''%'')] else []
      | None \<Rightarrow> [])"

text \<open>The clauses joined by \<open>AND\<close>; the empty list gives \<open>1=1\<close>.\<close>

definition matching :: "db \<Rightarrow> where_clause list \<Rightarrow> post_row list" where
  "matching d cls = filter (\<lambda>p. list_all (where_holds d p) cls) (Posts d)"

text \<open>A key that orders timestamps with valid fields chronologically.\<close>

definition datetime_key :: "datetime \<Rightarrow> int" where
  "datetime_key t =
     int ((((((year t * 13 + month t) * 32 + day t) * 24 + hour t) * 60 + minute t) * 60
           + second t) * 1000000 + microsecond t)"

text \<open>\<open>ORDER BY p.created_at DESC LIMIT %s OFFSET %s\<close>. Rows with equal timestamps
  come in an order SQL leaves open; the model keeps their table order.\<close>

definition page_rows :: "db \<Rightarrow> where_clause list \<Rightarrow> int \<Rightarrow> int \<Rightarrow> post_row list" where
  "page_rows d cls limit skip =
     take (nat limit) (drop (nat skip)
       (sort_key (\<lambda>p. - datetime_key (created_at p)) (matching d cls)))"

text \<open>Lines 141 to 148, for one row of the page.\<close>

definition enrich_item :: "db \<Rightarrow> post_row \<Rightarrow> pydict" where
  "enrich_item d p =
     (let post = row_dict p;
          post = (if post_id p \<noteq> 0
                  then dict_set (dict_set post ''interests'' (PList (get_post_interests d (post_id p))))
                         ''links'' (PDict (add_links (post_id p) []))
                  else post)
      in convert_created_at post)"

definition page_href :: "int \<Rightarrow> int \<Rightarrow> pyval" where
  "page_href skip limit =
     PDict [(''href'', PStr (''/posts?skip='' @ str_int skip @ ''&limit='' @ str_int limit))]"

text \<open>The dictionary returned at lines 157 to 170.\<close>

definition list_body :: "pyval list \<Rightarrow> int \<Rightarrow> int \<Rightarrow> int \<Rightarrow> pydict" where
  "list_body posts total_rows skip limit =
     [(''items'', PList posts),
      (''total'', PInt total_rows),
      (''skip'', PInt skip),
      (''limit'', PInt limit),
      (''has_more'', PBool (skip + limit < total_rows)),
      (''links'', PDict
         [(''self'', page_href skip limit),
          (''first'', page_href 0 limit),
          (''last'', page_href (max 0 ((total_rows - 1) div limit * limit)) limit),
          (''next'', if skip + limit < total_rows then page_href (skip + limit) limit else PNone),
          (''prev'', if skip > 0 then page_href (max 0 (skip - limit)) limit else PNone)])]"

text \<open>
  The handler. The declared bounds of \<open>skip\<close> and \<open>limit\<close> (\<open>ge=0\<close>, \<open>ge=1\<close>,
  \<open>le=100\<close>) are checked by the framework before the body runs; a request outside
  them is answered 422.
\<close>

definition get_posts ::
  "db \<Rightarrow> headers \<Rightarrow> int \<Rightarrow> int \<Rightarrow> int option \<Rightarrow> int option \<Rightarrow> string option
     \<Rightarrow> error + response" where
  "get_posts d hs skip limit interest_id created_by_q search =
     (if skip < 0 \<or> limit < 1 \<or> 100 < limit then Inl (HTTPException 422 ''Unprocessable Entity'')
      else case get_firebase_uid_from_header hs of
        Inl e \<Rightarrow> Inl e
      | Inr firebase_uid \<Rightarrow>
          let cls = where_clauses interest_id created_by_q search;
              total_rows = int (length (matching d cls));
              posts = map (\<lambda>p. PDict (enrich_item d p)) (page_rows d cls limit skip);
              etag = generate_etag [(''posts'', PList posts), (''total'', PInt total_rows),
                                    (''skip'', PInt skip), (''limit'', PInt limit)]
          in Inr \<lparr>status = 200,
                  body = Some (PDict (list_body posts total_rows skip limit)),
                  headers_out = [(''ETag'', quoted etag)]\<rparr>)"

subsection \<open>\<open>get_post\<close> (lines 173 to 217)\<close>

text \<open>The handler takes the request and never reads its headers.\<close>

definition get_post :: "db \<Rightarrow> headers \<Rightarrow> int \<Rightarrow> string option \<Rightarrow> error + response" where
  "get_post d hs pid if_none_match =
     (case fetch_post d pid of
        None \<Rightarrow> Inl (HTTPException 404 ''Post not found'')
      | Some p \<Rightarrow>
          let post = dict_set (row_dict p) ''interests'' (PList (get_post_interests d pid));
              post = convert_created_at post;
              etag = generate_etag post
          in if truthy if_none_match \<and> map_option strip_quotes if_none_match = Some etag
             then Inr \<lparr>status = 304, body = None, headers_out = []\<rparr>
             else Inr \<lparr>status = 200,
                       body = Some (PDict (dict_set post ''links'' (PDict (add_links pid [])))),
                       headers_out = [(''ETag'', quoted etag)]\<rparr>)"

subsection \<open>Writes: the connection and the association rows\<close>

text \<open>
  A connection of the MySQL connector does not commit by itself: what a cursor executes
  is seen by later statements of the same connection, \<open>cnx.commit()\<close> makes it
  permanent, and \<open>cnx.close()\<close> without a commit discards it. A handler therefore
  carries two stores, the committed one and the one its open transaction sees, and
  returns the committed store next to its answer.
\<close>

text \<open>
  Lines 255 to 266 and 370 to 381: the loop over the requested interest ids, on the
  store of the open transaction. It stops at the first id without a row in Interests.

  Modelled from the spec: the schema is not in the sources; the data model gives the
  association pairs as unique, so the insert of a pair already present is refused by
  the store, an exception no handler catches.
\<close>

fun associate_interests :: "db \<Rightarrow> int \<Rightarrow> int list \<Rightarrow> error + db" where
  "associate_interests w pid [] = Inr w"
| "associate_interests w pid (interest_id # ids) =
     (if interest_id \<notin> set (map fst (Interests w))
      then Inl (HTTPException 400 (''Interest '' @ str_int interest_id @ '' not found''))
      else if (pid, interest_id) \<in> set (PostInterests w)
      then Inl (Unhandled ''IntegrityError'')
      else associate_interests (w\<lparr>PostInterests := PostInterests w @ [(pid, interest_id)]\<rparr>)
             pid ids)"

text \<open>\<open>DELETE FROM PostInterests WHERE post_id = %s\<close>.\<close>

definition delete_post_interests :: "db \<Rightarrow> int \<Rightarrow> db" where
  "delete_post_interests w pid =
     w\<lparr>PostInterests := filter (\<lambda>(p, i). p \<noteq> pid) (PostInterests w)\<rparr>"

subsection \<open>\<open>create_post\<close> (lines 220 to 293)\<close>

text \<open>\<open>PostCreate\<close> of model.py: the fields of \<open>PostBase\<close> and \<open>interest_ids\<close>.\<close>

record post_create =
  new_title :: string
  new_body :: "string option"
  new_image_url :: "string option"
  new_interest_ids :: "int list option"

text \<open>
  Lines 237 to 293, given the value of \<open>post.created_by\<close>.

  Modelled from the spec: the schema is not in the sources; the post id and the creation
  time are assigned by the store. The id is the counter \<open>next_post_id\<close>, the time is
  the argument \<open>now\<close>.
\<close>

definition insert_post :: "db \<Rightarrow> post_create \<Rightarrow> int \<Rightarrow> datetime \<Rightarrow> db" where
  "insert_post d post creator now =
     d\<lparr>Posts := Posts d @
          [\<lparr>post_id = next_post_id d, title = new_title post, body_text = new_body post,
            image_url = new_image_url post, created_by = creator, created_at = now\<rparr>],
       next_post_id := next_post_id d + 1\<rparr>"

definition created_response :: "db \<Rightarrow> int \<Rightarrow> (error + response) \<times> db" where
  "created_response c pid =
     (case fetch_post c pid of
        None \<Rightarrow> (Inl (HTTPException 500 ''Failed to retrieve created post''), c)
      | Some p \<Rightarrow>
          let created_post = dict_set (row_dict p) ''interests'' (PList (get_post_interests c pid));
              created_post = dict_set created_post ''links'' (PDict (add_links pid []));
              created_post = convert_created_at created_post
          in (Inr \<lparr>status = 201, body = Some (PDict created_post),
                   headers_out = [(''Location'', ''/posts/'' @ str_int pid)]\<rparr>, c))"

definition create_post_body ::
  "db \<Rightarrow> post_create \<Rightarrow> int \<Rightarrow> datetime \<Rightarrow> (error + response) \<times> db" where
  "create_post_body d post creator now =
     (let c1 = insert_post d post creator now;
          pid = next_post_id d
      in if pid = 0 then (Inl (HTTPException 500 ''Failed to create post''), c1)
         else case new_interest_ids post of
           None \<Rightarrow> created_response c1 pid
         | Some ids \<Rightarrow>
             if ids = [] then created_response c1 pid
             else (case associate_interests c1 pid ids of
                     Inl e \<Rightarrow> (Inl e, c1)
                   | Inr c2 \<Rightarrow> created_response c2 pid))"

text \<open>
  \<open>PostCreate\<close> declares no field \<open>created_by\<close>, and a key of the request body that
  the class does not declare is dropped when the body is parsed. Reading the attribute
  at line 241 therefore raises \<open>AttributeError\<close>, which no handler catches.
\<close>

definition post_create_created_by :: "post_create \<Rightarrow> int option" where
  "post_create_created_by post = None"

definition create_post ::
  "db \<Rightarrow> headers \<Rightarrow> post_create \<Rightarrow> datetime \<Rightarrow> (error + response) \<times> db" where
  "create_post d hs post now =
     (case get_firebase_uid_from_header hs of
        Inl e \<Rightarrow> (Inl e, d)
      | Inr firebase_uid \<Rightarrow>
          (case post_create_created_by post of
             None \<Rightarrow> (Inl (Unhandled ''AttributeError''), d)
           | Some creator \<Rightarrow> create_post_body d post creator now))"

subsection \<open>\<open>update_post\<close> (lines 296 to 409)\<close>

text \<open>
  \<open>PostUpdate\<close> of model.py. \<open>post.dict(exclude_unset=True)\<close> tells a field the
  request left out from one it set to \<open>null\<close>, so a field has three states.
\<close>

datatype 'a field = Unset | Null | Val 'a

record post_update =
  upd_title :: "string field"
  upd_body :: "string field"
  upd_image_url :: "string field"
  upd_interest_ids :: "int list field"

definition field_item :: "string \<Rightarrow> 'a field \<Rightarrow> (string \<times> 'a option) list" where
  "field_item k f = (case f of Unset \<Rightarrow> [] | Null \<Rightarrow> [(k, None)] | Val v \<Rightarrow> [(k, Some v)])"

text \<open>The scalar entries of \<open>update_dict\<close> after \<open>interest_ids\<close> is popped (line 351).\<close>

definition update_dict :: "post_update \<Rightarrow> (string \<times> string option) list" where
  "update_dict post =
     field_item ''title'' (upd_title post) @ field_item ''body'' (upd_body post)
     @ field_item ''image_url'' (upd_image_url post)"

text \<open>\<open>update_dict.pop('interest_ids', None)\<close>: a missing key and \<open>null\<close> both
  give \<open>None\<close>.\<close>

definition popped_interest_ids :: "post_update \<Rightarrow> int list option" where
  "popped_interest_ids post =
     (case upd_interest_ids post of Val ids \<Rightarrow> Some ids | _ \<Rightarrow> None)"

text \<open>Lines 353 to 356: the columns to assign, with their values.\<close>

definition assignments :: "post_update \<Rightarrow> (string \<times> string) list" where
  "assignments post =
     concat (map (\<lambda>(k, v). case v of None \<Rightarrow> [] | Some x \<Rightarrow> [(k, x)]) (update_dict post))"

fun set_column :: "post_row \<Rightarrow> string \<times> string \<Rightarrow> post_row" where
  "set_column p (k, v) =
     (if k = ''title'' then p\<lparr>title := v\<rparr>
      else if k = ''body'' then p\<lparr>body_text := Some v\<rparr>
      else if k = ''image_url'' then p\<lparr>image_url := Some v\<rparr>
      else p)"

text \<open>\<open>UPDATE Posts SET ... WHERE post_id = %s\<close>.\<close>

definition update_row :: "db \<Rightarrow> (string \<times> string) list \<Rightarrow> int \<Rightarrow> db" where
  "update_row w field_list pid =
     w\<lparr>Posts := map (\<lambda>p. if post_id p = pid then foldl set_column p field_list else p) (Posts w)\<rparr>"

text \<open>Lines 337 and 338: the fingerprint of the fetched row with its interests; the
  row still holds \<open>created_at\<close> as a \<open>datetime\<close>.\<close>

definition existing_etag :: "db \<Rightarrow> post_row \<Rightarrow> int \<Rightarrow> string" where
  "existing_etag d existing_post pid =
     generate_etag (dict_set (row_dict existing_post) ''interests''
                      (PList (get_post_interests d pid)))"

definition updated_response :: "db \<Rightarrow> int \<Rightarrow> (error + response) \<times> db" where
  "updated_response c pid =
     (case fetch_post c pid of
        None \<Rightarrow> (Inl (HTTPException 500 ''Failed to retrieve updated post''), c)
      | Some p \<Rightarrow>
          let updated_post = dict_set (row_dict p) ''interests'' (PList (get_post_interests c pid));
              updated_post = dict_set updated_post ''links'' (PDict (add_links pid []));
              updated_post = convert_created_at updated_post;
              etag = generate_etag updated_post
          in (Inr \<lparr>status = 200, body = Some (PDict updated_post),
                   headers_out = [(''ETag'', quoted etag)]\<rparr>, c))"

definition update_post ::
  "db \<Rightarrow> headers \<Rightarrow> int \<Rightarrow> post_update \<Rightarrow> int \<Rightarrow> string option \<Rightarrow> (error + response) \<times> db" where
  "update_post d hs pid post created_by_q if_match =
     (case get_firebase_uid_from_header hs of
        Inl e \<Rightarrow> (Inl e, d)
      | Inr firebase_uid \<Rightarrow>
          (case fetch_post d pid of
             None \<Rightarrow> (Inl (HTTPException 404 ''Post not found''), d)
           | Some existing_post \<Rightarrow>
               if created_by existing_post \<noteq> created_by_q
               then (Inl (HTTPException 403 ''You can only update posts you created''), d)
               else if truthy if_match \<and>
                       map_option strip_quotes if_match \<noteq> Some (existing_etag d existing_post pid)
               then (Inl (HTTPException 412 ''Precondition Failed: eTag mismatch''), d)
               else
                 let field_list = assignments post;
                     c1 = (if field_list \<noteq> [] then update_row d field_list pid else d)
                 in case popped_interest_ids post of
                      None \<Rightarrow> updated_response c1 pid
                    | Some ids \<Rightarrow>
                        (case associate_interests (delete_post_interests c1 pid) pid ids of
                           Inl e \<Rightarrow> (Inl e, c1)
                         | Inr c2 \<Rightarrow> updated_response c2 pid)))"

subsection \<open>\<open>delete_post\<close> (lines 412 to 451) and \<open>get_interests\<close> (lines 457 to 467)\<close>

definition delete_post :: "db \<Rightarrow> headers \<Rightarrow> int \<Rightarrow> int \<Rightarrow> (error + response) \<times> db" where
  "delete_post d hs pid created_by_q =
     (case get_firebase_uid_from_header hs of
        Inl e \<Rightarrow> (Inl e, d)
      | Inr firebase_uid \<Rightarrow>
          (case fetch_post d pid of
             None \<Rightarrow> (Inl (HTTPException 404 ''Post not found''), d)
           | Some post \<Rightarrow>
               if created_by post \<noteq> created_by_q
               then (Inl (HTTPException 403 ''You can only delete posts you created''), d)
               else (Inr \<lparr>status = 200,
                          body = Some (PDict [(''status'', PStr ''deleted''), (''post_id'', PInt pid)]),
                          headers_out = []\<rparr>,
                     d\<lparr>Posts := filter (\<lambda>p. post_id p \<noteq> pid) (Posts d)\<rparr>)))"

definition get_interests :: "db \<Rightarrow> headers \<Rightarrow> error + response" where
  "get_interests d hs =
     (case get_firebase_uid_from_header hs of
        Inl e \<Rightarrow> Inl e
      | Inr firebase_uid \<Rightarrow>
          Inr \<lparr>status = 200,
               body = Some (PList (map (\<lambda>(iid, iname).
                        PDict [(''interest_id'', PInt iid), (''interest_name'', PStr iname)])
                        (sort_key snd (Interests d)))),
               headers_out = []\<rparr>)"

subsection \<open>Notions used to state the properties\<close>

text \<open>The state \<open>get_post\<close> fingerprints: the row with its interests, \<open>created_at\<close>
  in ISO form, before the links are attached.\<close>

definition enriched_post :: "db \<Rightarrow> post_row \<Rightarrow> int \<Rightarrow> pydict" where
  "enriched_post d p pid =
     convert_created_at (dict_set (row_dict p) ''interests'' (PList (get_post_interests d pid)))"

text \<open>A small store and request for the concrete instances below.\<close>

definition example_time :: datetime where
  "example_time = \<lparr>year = 2024, month = 1, day = 5, hour = 3, minute = 4, second = 9,
                    microsecond = 0\<rparr>"

definition example_post :: post_row where
  "example_post = \<lparr>post_id = 1, title = ''hello'', body_text = Some ''world'',
                    image_url = None, created_by = 7, created_at = example_time\<rparr>"

definition example_db :: db where
  "example_db = \<lparr>Posts = [example_post], Interests = [(1, ''music''), (2, ''sport'')],
                  PostInterests = [(1, 1)], next_post_id = 2\<rparr>"

definition example_headers :: headers where
  "example_headers = [(''x-firebase-uid'', ''uid-1'')]"

text \<open>The precondition check of \<open>update_post\<close> (lines 336 to 342) lets the request
  through.\<close>

definition if_match_passes :: "db \<Rightarrow> post_row \<Rightarrow> int \<Rightarrow> string option \<Rightarrow> bool" where
  "if_match_passes d p pid if_match =
     (if truthy if_match
      then map_option strip_quotes if_match = Some (existing_etag d p pid) else True)"

text \<open>The body \<open>update_post\<close> answers with: the row with interests and links,
  \<open>created_at\<close> in ISO form.\<close>

definition response_dict :: "db \<Rightarrow> post_row \<Rightarrow> int \<Rightarrow> pydict" where
  "response_dict c p pid =
     convert_created_at
       (dict_set (dict_set (row_dict p) ''interests'' (PList (get_post_interests c pid)))
          ''links'' (PDict (add_links pid [])))"

definition example_update :: post_update where
  "example_update = \<lparr>upd_title = Val ''new'', upd_body = Unset, upd_image_url = Unset,
                      upd_interest_ids = Unset\<rparr>"

definition example_bad_update :: post_update where
  "example_bad_update = \<lparr>upd_title = Val ''new'', upd_body = Unset, upd_image_url = Unset,
                          upd_interest_ids = Val [99]\<rparr>"

text \<open>A field of the payload carries a value (it is neither left out nor \<open>null\<close>).\<close>

definition is_val :: "'a field \<Rightarrow> bool" where
  "is_val f = (case f of Val v \<Rightarrow> True | _ \<Rightarrow> False)"

definition example_empty_update :: post_update where
  "example_empty_update = \<lparr>upd_title = Unset, upd_body = Null, upd_image_url = Unset,
                            upd_interest_ids = Unset\<rparr>"

definition example_create :: post_create where
  "example_create = \<lparr>new_title = ''t'', new_body = None, new_image_url = None,
                      new_interest_ids = Some [99]\<rparr>"

text \<open>Two payloads with the same content and a different key order, at both levels.\<close>

definition example_payload_a :: pydict where
  "example_payload_a =
     [(''post_id'', PInt 1), (''title'', PStr ''hello''),
      (''interests'', PList [PDict [(''interest_id'', PInt 1), (''interest_name'', PStr ''music'')]])]"

definition example_payload_b :: pydict where
  "example_payload_b =
     [(''interests'', PList [PDict [(''interest_name'', PStr ''music''), (''interest_id'', PInt 1)]]),
      (''title'', PStr ''hello''), (''post_id'', PInt 1)]"

text \<open>
  The equality of payloads the determinism claim speaks of, following the spec's words:
  atoms are equal when they are the same value, lists when they are equal element by
  element, dictionaries when they have the same key set (each key once) and equal values
  under every key, whatever the insertion order.
\<close>

function (sequential) py_equal :: "pyval \<Rightarrow> pyval \<Rightarrow> bool" where
  "py_equal (PList xs) (PList ys) =
     (length xs = length ys \<and> list_all (\<lambda>(x, y). py_equal x y) (zip xs ys))"
| "py_equal (PDict kvs) (PDict kvs') =
     (distinct (map fst kvs) \<and> distinct (map fst kvs')
      \<and> set (map fst kvs) = set (map fst kvs')
      \<and> list_all (\<lambda>(k, v). case map_of kvs' k of None \<Rightarrow> False | Some v' \<Rightarrow> py_equal v v') kvs)"
| "py_equal (PList xs) b = False"
| "py_equal (PDict kvs) b = False"
| "py_equal a (PList ys) = False"
| "py_equal a (PDict kvs') = False"
| "py_equal a b = (a = b)"
  by pat_completeness auto

lemma size_zip_left: "(x, y) \<in> set (zip xs ys) \<Longrightarrow> size x < Suc (size_list size xs)"
  by (auto dest!: set_zip_leftD simp: less_Suc_eq_le size_list_estimation')

lemma size_dict_value:
  "(k, v) \<in> set kvs \<Longrightarrow> size v < Suc (size_list (size_prod (\<lambda>_. 0) size) kvs)"
proof -
  assume "(k, v) \<in> set kvs"
  then have "size_prod (\<lambda>_. 0) size (k, v) \<le> size_list (size_prod (\<lambda>_. 0) size) kvs"
    by (rule size_list_estimation') simp
  then show ?thesis by simp
qed

termination py_equal
  by (relation "measure (\<lambda>(a, b). size a)") (auto simp: size_zip_left size_dict_value)

text \<open>
  Containment as a case-insensitive substring, following the spec's words: the text has
  a position at which the search string is a prefix, letter case aside.
\<close>

fun ci_prefix :: "string \<Rightarrow> string \<Rightarrow> bool" where
  "ci_prefix [] t = True"
| "ci_prefix (c # s) [] = False"
| "ci_prefix (c # s) (d # t) = (ci_eq c d \<and> ci_prefix s t)"

fun ci_contains :: "string \<Rightarrow> string \<Rightarrow> bool" where
  "ci_contains s [] = ci_prefix s []"
| "ci_contains s (d # t) = (ci_prefix s (d # t) \<or> ci_contains s t)"

text \<open>The search string holds none of the characters \<open>LIKE\<close> reads specially.\<close>

definition wildcard_free :: "string \<Rightarrow> bool" where
  "wildcard_free s = list_all (\<lambda>c. c \<noteq> CHR ''%'' \<and> c \<noteq> CHR ''_'' \<and> c \<noteq> CHR 0x5C) s"

text \<open>What the search clause of the query tests for a row: \<open>LIKE\<close> on the title or on
  the body; a body that is \<open>NULL\<close> does not match.\<close>

definition search_matches :: "string \<Rightarrow> post_row \<Rightarrow> bool" where
  "search_matches s p =
     (like_match (''%'' @ s @ ''%'') (title p)
      \<or> (case body_text p of None \<Rightarrow> False | Some t \<Rightarrow> like_match (''%'' @ s @ ''%'') t))"

text \<open>The search string occurs in the title or in the body, letter case aside.\<close>

definition text_contains :: "string \<Rightarrow> post_row \<Rightarrow> bool" where
  "text_contains s p =
     (ci_contains s (title p)
      \<or> (case body_text p of None \<Rightarrow> False | Some t \<Rightarrow> ci_contains s t))"

text \<open>A row passes the clauses the handler builds for a list request: one for each
  parameter that is supplied with a value other than 0 or the empty string.\<close>

definition passes_filters ::
  "db \<Rightarrow> int option \<Rightarrow> int option \<Rightarrow> string option \<Rightarrow> post_row \<Rightarrow> bool" where
  "passes_filters d interest_id created_by_q search p =
     ((case interest_id of
         Some i \<Rightarrow> i = 0 \<or> (post_id p, i) \<in> set (PostInterests d) | None \<Rightarrow> True)
      \<and> (case created_by_q of Some u \<Rightarrow> u = 0 \<or> created_by p = u | None \<Rightarrow> True)
      \<and> (case search of Some s \<Rightarrow> s = [] \<or> search_matches s p | None \<Rightarrow> True))"

section \<open>Properties\<close>

subsection \<open>The fingerprint is a token of 32 lowercase hex digits\<close>

lemma hex_digit_table: "\<forall>n \<in> set [0..<16]. hex_digit n \<in> set ''0123456789abcdef''"
  by code_simp

lemma hex_digit_in: "n < 16 \<Longrightarrow> hex_digit n \<in> set ''0123456789abcdef''"
  using hex_digit_table by simp

lemma length_le_bytes: "length (le_bytes k x) = k"
  by (induction k arbitrary: x) simp_all

lemma length_md5_digest: "length (md5_digest bs) = 16"
  by (simp add: md5_digest_def Let_def length_le_bytes split: prod.splits)

lemma length_concat_hex_byte: "length (concat (map hex_byte xs)) = 2 * length xs"
  by (induction xs) (simp_all add: hex_byte_def)

lemma length_md5_hexdigest: "length (md5_hexdigest bs) = 32"
  by (simp add: md5_hexdigest_def length_concat_hex_byte length_md5_digest)

lemma set_hex_byte: "set (hex_byte b) \<subseteq> set ''0123456789abcdef''"
  using hex_digit_in [of "b div 16 mod 16"] hex_digit_in [of "b mod 16"]
  by (simp add: hex_byte_def)

lemma set_md5_hexdigest: "set (md5_hexdigest bs) \<subseteq> set ''0123456789abcdef''"
  unfolding md5_hexdigest_def using set_hex_byte by (auto simp del: set_simps)

lemma length_generate_etag: "length (generate_etag data) = 32"
  by (simp add: generate_etag_def length_md5_hexdigest)

lemma set_generate_etag: "set (generate_etag data) \<subseteq> set ''0123456789abcdef''"
  unfolding generate_etag_def by (rule set_md5_hexdigest)

lemma generate_etag_not_Nil: "generate_etag data \<noteq> []"
  using length_generate_etag [of data] by auto

lemma etag_neq: "length s \<noteq> 32 \<Longrightarrow> s \<noteq> generate_etag data"
  using length_generate_etag [of data] by blast

lemma quote_notin_etag: "CHR 0x22 \<notin> set (generate_etag data)"
  using set_generate_etag [of data] by auto

subsection \<open>Links of a resource\<close>

text \<open>
  Claim C10. For every post id (and base), \<open>add_links\<close> yields exactly the four
  relations self, collection, interests and author, and the href of author is the path
  \<open>/users/\<close> followed by the post id that was passed in. The function takes no
  creator, so the href cannot depend on \<open>created_by\<close>.
\<close>

theorem add_links_relations:
  "map fst (add_links pid base_url) = [''self'', ''collection'', ''interests'', ''author'']
   \<and> dict_get (add_links pid base_url) ''author''
       = Some (PDict [(''href'', PStr (base_url @ ''/users/'' @ str_int pid))])"
  by (simp add: add_links_def dict_get_def)

text \<open>For the example post the author link names the post id 1, not the creator 7.\<close>

lemma author_link_example:
  "dict_get (add_links (post_id example_post) []) ''author''
     = Some (PDict [(''href'', PStr ''/users/1'')])
   \<and> created_by example_post = 7"
  by code_simp

subsection \<open>Pagination arithmetic\<close>

text \<open>
  Claim C8. In the body of a list response, for every \<open>skip \<ge> 0\<close>, \<open>limit \<ge> 1\<close> and every
  total: \<open>has_more\<close> is true exactly when \<open>skip + limit < total\<close>; the next link is
  present (not \<open>None\<close>) exactly then, and is then the href
  \<open>/posts?skip={skip + limit}&limit={limit}\<close>; the prev link is present exactly when
  \<open>skip > 0\<close>, and is then the href \<open>/posts?skip={max(0, skip - limit)}&limit={limit}\<close>;
  the last link is the href whose offset is \<open>(total - 1) div limit * limit\<close>, clamped at
  0 (\<open>div\<close> on \<open>int\<close> rounds down, as \<open>//\<close> does).
\<close>

theorem pagination_links:
  assumes "0 \<le> skip" and "1 \<le> limit"
  shows "dict_get (list_body posts total_rows skip limit) ''has_more''
           = Some (PBool (skip + limit < total_rows))
   \<and> (\<exists>links. dict_get (list_body posts total_rows skip limit) ''links'' = Some (PDict links)
        \<and> (dict_get links ''next'' \<noteq> Some PNone) = (skip + limit < total_rows)
        \<and> dict_get links ''next''
            = Some (if skip + limit < total_rows
                    then PDict [(''href'', PStr (''/posts?skip='' @ str_int (skip + limit)
                                                  @ ''&limit='' @ str_int limit))]
                    else PNone)
        \<and> (dict_get links ''prev'' \<noteq> Some PNone) = (skip > 0)
        \<and> dict_get links ''prev''
            = Some (if skip > 0
                    then PDict [(''href'', PStr (''/posts?skip='' @ str_int (max 0 (skip - limit))
                                                  @ ''&limit='' @ str_int limit))]
                    else PNone)
        \<and> dict_get links ''last''
            = Some (PDict [(''href'', PStr (''/posts?skip=''
                       @ str_int (max 0 ((total_rows - 1) div limit * limit))
                       @ ''&limit='' @ str_int limit))]))"
  by (simp add: list_body_def page_href_def dict_get_def)

text \<open>Two pages of 25 rows with \<open>limit = 10\<close>: the first (\<open>skip = 0\<close>) and the last
  (\<open>skip = 20\<close>).\<close>

theorem pagination_links_witness:
  "dict_get (list_body [] 25 0 10) ''has_more'' = Some (PBool True)
   \<and> dict_get (list_body [] 25 20 10) ''has_more'' = Some (PBool False)
   \<and> (\<exists>links. dict_get (list_body [] 25 0 10) ''links'' = Some (PDict links)
        \<and> dict_get links ''next'' = Some (PDict [(''href'', PStr ''/posts?skip=10&limit=10'')])
        \<and> dict_get links ''prev'' = Some PNone
        \<and> dict_get links ''last'' = Some (PDict [(''href'', PStr ''/posts?skip=20&limit=10'')]))
   \<and> (\<exists>links. dict_get (list_body [] 25 20 10) ''links'' = Some (PDict links)
        \<and> dict_get links ''next'' = Some PNone
        \<and> dict_get links ''prev'' = Some (PDict [(''href'', PStr ''/posts?skip=10&limit=10'')])
        \<and> dict_get links ''last'' = Some (PDict [(''href'', PStr ''/posts?skip=20&limit=10'')]))"
proof -
  have s10: "str_int 10 = ''10''" and s20: "str_int 20 = ''20''"
    by code_simp+
  have a: "(0::int) \<le> 0" "(1::int) \<le> 10" "(0::int) \<le> 20"
    by simp_all
  show ?thesis
    using pagination_links [OF a(1) a(2), of "[]" 25] pagination_links [OF a(3) a(2), of "[]" 25]
    by (simp add: s10 s20) blast
qed

text \<open>The example of the spec: 25 rows, \<open>skip = 20\<close>, \<open>limit = 10\<close>.\<close>

lemma pagination_example:
  "list_body [] 25 20 10 =
     [(''items'', PList []), (''total'', PInt 25), (''skip'', PInt 20), (''limit'', PInt 10),
      (''has_more'', PBool False),
      (''links'', PDict
         [(''self'', PDict [(''href'', PStr ''/posts?skip=20&limit=10'')]),
          (''first'', PDict [(''href'', PStr ''/posts?skip=0&limit=10'')]),
          (''last'', PDict [(''href'', PStr ''/posts?skip=20&limit=10'')]),
          (''next'', PNone),
          (''prev'', PDict [(''href'', PStr ''/posts?skip=10&limit=10'')])])]"
  by code_simp

subsection \<open>Conditional GET\<close>

lemma strip_quotes_Nil [simp]: "strip_quotes [] = []"
  by (simp add: strip_quotes_def)

lemma strip_quotes_quoted:
  assumes "CHR 0x22 \<notin> set s"
  shows "strip_quotes (quoted s) = s"
proof (cases s)
  case Nil
  then show ?thesis by (simp add: strip_quotes_def quoted_def)
next
  case (Cons c cs)
  have a: "dropWhile (\<lambda>c. c = CHR 0x22) t = t" if "CHR 0x22 \<notin> set t" for t
    using that by (cases t) auto
  have "dropWhile (\<lambda>c. c = CHR 0x22) (quoted s) = s @ [CHR 0x22]"
    using assms Cons by (auto simp: quoted_def)
  moreover have "dropWhile (\<lambda>c. c = CHR 0x22) (rev (s @ [CHR 0x22])) = rev s"
    using a [of "rev s"] assms by simp
  ultimately show ?thesis by (simp add: strip_quotes_def)
qed

lemma fetch_example: "fetch_post example_db 1 = Some example_post"
  by (simp add: fetch_post_def example_db_def example_post_def)

text \<open>
  Claim C3. For a post id with no stored post \<open>get_post\<close> answers 404. For a stored
  post it answers 304 with an empty body exactly when an \<open>If-None-Match\<close> header is
  present whose value, stripped of surrounding quotes, equals the fingerprint of the
  enriched state; in every other case (header absent or different) it answers 200 with
  the enriched post and its links.
\<close>

theorem get_post_conditional:
  "get_post d hs pid if_none_match =
     (case fetch_post d pid of
        None \<Rightarrow> Inl (HTTPException 404 ''Post not found'')
      | Some p \<Rightarrow>
          if (\<exists>h. if_none_match = Some h
                 \<and> strip_quotes h = generate_etag (enriched_post d p pid))
          then Inr \<lparr>status = 304, body = None, headers_out = []\<rparr>
          else Inr \<lparr>status = 200,
                    body = Some (PDict (dict_set (enriched_post d p pid) ''links''
                                          (PDict (add_links pid [])))),
                    headers_out = [(''ETag'', quoted (generate_etag (enriched_post d p pid)))]\<rparr>)"
proof (cases "fetch_post d pid")
  case None
  then show ?thesis by (simp add: get_post_def)
next
  case (Some p)
  have "(truthy if_none_match \<and> map_option strip_quotes if_none_match
            = Some (generate_etag (enriched_post d p pid)))
        = (\<exists>h. if_none_match = Some h \<and> strip_quotes h = generate_etag (enriched_post d p pid))"
    using generate_etag_not_Nil [of "enriched_post d p pid"]
    by (cases if_none_match) (auto simp: truthy_def)
  with Some show ?thesis
    by (simp add: get_post_def enriched_post_def Let_def)
qed

theorem get_post_conditional_witness:
  "get_post example_db [] 1
     (Some (quoted (generate_etag (enriched_post example_db example_post 1))))
     = Inr \<lparr>status = 304, body = None, headers_out = []\<rparr>
   \<and> map_sum status_of status (get_post example_db [] 1 (Some ''stale'')) = Inr 200
   \<and> get_post example_db [] 2 None = Inl (HTTPException 404 ''Post not found'')"
proof -
  have "length (strip_quotes ''stale'') \<noteq> 32"
    by (simp add: strip_quotes_def)
  then have "strip_quotes ''stale'' \<noteq> generate_etag (enriched_post example_db example_post 1)"
    by (rule etag_neq)
  moreover have "fetch_post example_db 2 = None"
    by (simp add: fetch_post_def example_db_def example_post_def)
  ultimately show ?thesis
    by (simp add: get_post_conditional fetch_example strip_quotes_quoted quote_notin_etag)
qed

subsection \<open>The identity header\<close>

lemma get_post_ignores_headers: "get_post d hs pid inm = get_post d [] pid inm"
  by (simp add: get_post_def)

lemma unauthenticated_header:
  assumes "headers_get hs ''x-firebase-uid'' = None \<or> headers_get hs ''x-firebase-uid'' = Some []"
  shows "get_firebase_uid_from_header hs
     = Inl (HTTPException 401 ''Authentication required - x-firebase-uid header missing'')"
proof -
  have "map lower_char ''X-Firebase-Uid'' = map lower_char ''x-firebase-uid''"
    by code_simp
  then have "headers_get hs ''X-Firebase-Uid'' = headers_get hs ''x-firebase-uid''"
    by (simp only: headers_get_def)
  with assms show ?thesis
    by (auto simp: get_firebase_uid_from_header_def py_or_def truthy_def)
qed

lemma other_routes_reject_unauthenticated:
  assumes "get_firebase_uid_from_header hs = Inl e"
  shows "create_post d hs post now = (Inl e, d)"
    and "update_post d hs pid upd cb im = (Inl e, d)"
    and "delete_post d hs pid cb = (Inl e, d)"
    and "get_interests d hs = Inl e"
    and "0 \<le> skip \<Longrightarrow> 1 \<le> limit \<Longrightarrow> limit \<le> 100
         \<Longrightarrow> get_posts d hs skip limit iid cbq search = Inl e"
  using assms
  by (simp_all add: create_post_def update_post_def delete_post_def get_interests_def
        get_posts_def)

text \<open>
  Claim C5 fails on the code for \<open>GET /posts/{id}\<close>: \<open>get_post\<close> never calls
  \<open>get_firebase_uid_from_header\<close>. With no header at all the extractor fails with 401,
  yet the handler reads the store and answers 200.
\<close>

theorem get_post_unauthenticated:
  "get_firebase_uid_from_header []
     = Inl (HTTPException 401 ''Authentication required - x-firebase-uid header missing'')
   \<and> map_sum status_of status (get_post example_db [] 1 None) = Inr 200"
  by (simp add: get_firebase_uid_from_header_def py_or_def truthy_def headers_get_def
        get_post_def fetch_example Let_def)

subsection \<open>Facts about the update path\<close>

lemma auth_example: "get_firebase_uid_from_header example_headers = Inr ''uid-1''"
  by code_simp

lemma snd_updated_response [simp]: "snd (updated_response c pid) = c"
  by (simp add: updated_response_def Let_def split: option.splits)

lemma updated_response_Some:
  "fetch_post c pid = Some p \<Longrightarrow>
   updated_response c pid =
     (Inr \<lparr>status = 200, body = Some (PDict (response_dict c p pid)),
           headers_out = [(''ETag'', quoted (generate_etag (response_dict c p pid)))]\<rparr>, c)"
  by (simp add: updated_response_def response_dict_def Let_def)

lemma post_id_foldl_set_column [simp]: "post_id (foldl set_column p fl) = post_id p"
  by (induction fl arbitrary: p) auto

lemma created_by_foldl_set_column [simp]: "created_by (foldl set_column p fl) = created_by p"
  by (induction fl arbitrary: p) auto

lemma find_map_keep:
  "(\<And>x. P (f x) = P x) \<Longrightarrow> find P (map f xs) = map_option f (find P xs)"
  by (induction xs) auto

lemma fetch_post_update_row:
  "fetch_post (update_row d fl pid) q
     = map_option (\<lambda>p. if post_id p = pid then foldl set_column p fl else p) (fetch_post d q)"
  unfolding fetch_post_def update_row_def
  by (simp add: find_map_keep)

lemma associate_interests_frame:
  "associate_interests w pid ids = Inr w' \<Longrightarrow>
     Posts w' = Posts w \<and> Interests w' = Interests w \<and> next_post_id w' = next_post_id w"
  by (induction w pid ids rule: associate_interests.induct) (auto split: if_splits)

lemma fetch_post_cong: "Posts a = Posts b \<Longrightarrow> fetch_post a q = fetch_post b q"
  by (simp add: fetch_post_def)

lemma example_creator: "created_by example_post = 7"
  by (simp add: example_post_def)

lemma example_assignments: "assignments example_update = [(''title'', ''new'')]"
  by (simp add: assignments_def update_dict_def field_item_def example_update_def)

lemma example_update_row:
  "update_row example_db [(''title'', ''new'')] 1
     = example_db\<lparr>Posts := [example_post\<lparr>title := ''new''\<rparr>]\<rparr>"
  by (simp add: update_row_def example_db_def example_post_def)

lemma update_example_result:
  "update_post example_db example_headers 1 example_update 7 None
     = updated_response (example_db\<lparr>Posts := [example_post\<lparr>title := ''new''\<rparr>]\<rparr>) 1"
proof -
  have "popped_interest_ids example_update = None"
    by (simp add: popped_interest_ids_def example_update_def)
  then show ?thesis
    by (simp add: update_post_def auth_example fetch_example example_creator truthy_def
          example_assignments example_update_row)
qed

lemma example_bad_assignments: "assignments example_bad_update = [(''title'', ''new'')]"
  by (simp add: assignments_def update_dict_def field_item_def example_bad_update_def)

subsection \<open>Conditional PUT\<close>

lemma dict_get_dict_set:
  "dict_get (dict_set x k v) k' = (if k' = k then Some v else dict_get x k')"
  by (induction x) (auto simp: dict_get_def)







text \<open>
  The timestamp in the two fingerprints. The precondition check (lines 337 and 338)
  fingerprints the row as fetched, where \<open>created_at\<close> is still a \<open>datetime\<close> that
  \<open>default=str\<close> writes with a space; \<open>get_post\<close> (lines 203 to 207) and the response of
  \<open>update_post\<close> (lines 402 to 406) fingerprint after \<open>isoformat()\<close>, which writes a
  \<open>T\<close>. The two renderings differ for every timestamp, and for the example post the two
  serialised texts differ. So the check does not compare with the \<open>ETag\<close> a response
  carries, and answers 412 to every token that is not the fingerprint of the row as
  fetched: a defect of the handler, set apart from the statement above.
\<close>

lemma precondition_check_uses_raw_row:
  assumes "get_firebase_uid_from_header hs = Inr uid"
    and "fetch_post d pid = Some p"
    and "created_by p = cb"
    and "h \<noteq> []"
  shows "(update_post d hs pid post cb (Some h)
            = (Inl (HTTPException 412 ''Precondition Failed: eTag mismatch''), d))
         \<or> strip_quotes h
              = generate_etag (dict_set (row_dict p) ''interests''
                                 (PList (get_post_interests d pid)))"
  using assms by (simp add: update_post_def truthy_def existing_etag_def)

lemma str_datetime_not_isoformat: "str_datetime t \<noteq> isoformat t"
  by (simp add: str_datetime_def isoformat_def isoformat_sep_def)

lemma fingerprinted_created_at:
  "dict_get (dict_set (row_dict p) ''interests'' v) ''created_at''
     = Some (PDatetime (created_at p))
   \<and> dict_get (enriched_post d p pid) ''created_at'' = Some (PStr (isoformat (created_at p)))"
  by (simp add: enriched_post_def convert_created_at_def dict_get_dict_set row_dict_def
        dict_get_def)

lemma fingerprinted_texts_example:
  "dumps (PDict (dict_set (row_dict example_post) ''interests''
                   (PList (get_post_interests example_db 1))))
     \<noteq> dumps (PDict (enriched_post example_db example_post 1))"
  by code_simp

subsection \<open>An invalid interest id after a field update\<close>

text \<open>
  Claim C4 fails on the code. A PUT that sets the title and names interest 99, which has
  no row in Interests, is answered 400, but the title assignment was committed at line
  362 before the interest loop ran, so it persists. The association rows are as before:
  the delete and the inserts of the batch were never committed.
\<close>

theorem update_invalid_interest_keeps_fields:
  "update_post example_db example_headers 1 example_bad_update 7 None
     = (Inl (HTTPException 400 ''Interest 99 not found''),
        example_db\<lparr>Posts := [example_post\<lparr>title := ''new''\<rparr>]\<rparr>)"
proof -
  have s: "str_int 99 = ''99''" by code_simp
  have p: "popped_interest_ids example_bad_update = Some [99]"
    by (simp add: popped_interest_ids_def example_bad_update_def)
  have "associate_interests
          (delete_post_interests (example_db\<lparr>Posts := [example_post\<lparr>title := ''new''\<rparr>]\<rparr>) 1)
          1 [99] = Inl (HTTPException 400 ''Interest 99 not found'')"
    by (simp add: s delete_post_interests_def example_db_def)
  then show ?thesis
    by (simp add: update_post_def auth_example fetch_example example_creator truthy_def
          example_bad_assignments example_update_row p)
qed

subsection \<open>Ownership\<close>

lemma fetch_post_id: "fetch_post d pid = Some p \<Longrightarrow> post_id p = pid"
  by (auto simp: fetch_post_def find_Some_iff)

lemma find_filter_keep: "find P (filter Q xs) = find (\<lambda>x. P x \<and> Q x) xs"
  by (induction xs) auto

lemma find_append_first: "find P xs = Some x \<Longrightarrow> find P (xs @ ys) = Some x"
  by (induction xs) (auto split: if_splits)

lemma Posts_delete_post_interests [simp]: "Posts (delete_post_interests w pid) = Posts w"
  by (simp add: delete_post_interests_def)

lemma update_post_Posts:
  "Posts (snd (update_post d hs pid post cb im)) = Posts d
   \<or> Posts (snd (update_post d hs pid post cb im)) = Posts (update_row d (assignments post) pid)"
  by (auto simp: update_post_def Let_def dest!: associate_interests_frame
        split: sum.splits option.splits)

lemma creator_after_update_row:
  "fetch_post d q = Some row0 \<Longrightarrow>
   map_option created_by (fetch_post (update_row d fl pid) q) = Some (created_by row0)"
  by (simp add: fetch_post_update_row)

lemma creator_after_update:
  assumes "fetch_post d q = Some row0"
  shows "map_option created_by (fetch_post (snd (update_post d hs pid post cb im)) q)
           = Some (created_by row0)"
proof -
  from update_post_Posts [of d hs pid post cb im]
  have "fetch_post (snd (update_post d hs pid post cb im)) q = fetch_post d q
      \<or> fetch_post (snd (update_post d hs pid post cb im)) q
           = fetch_post (update_row d (assignments post) pid) q"
    by (auto dest: fetch_post_cong)
  with assms creator_after_update_row [OF assms] show ?thesis by auto
qed

lemma creator_after_delete:
  assumes "fetch_post d q = Some row0"
  shows "fetch_post (snd (delete_post d hs pid cb)) q = None
         \<or> map_option created_by (fetch_post (snd (delete_post d hs pid cb)) q)
             = Some (created_by row0)"
proof (cases "snd (delete_post d hs pid cb) = d")
  case True
  with assms show ?thesis by simp
next
  case False
  then have s: "snd (delete_post d hs pid cb) = d\<lparr>Posts := filter (\<lambda>p. post_id p \<noteq> pid) (Posts d)\<rparr>"
    by (auto simp: delete_post_def split: sum.splits option.splits if_splits)
  show ?thesis
  proof (cases "q = pid")
    case True
    have "fetch_post (d\<lparr>Posts := filter (\<lambda>p. post_id p \<noteq> pid) (Posts d)\<rparr>) pid = None"
      by (simp add: fetch_post_def find_None_iff)
    with True s show ?thesis by simp
  next
    case False
    then have "find (\<lambda>p. post_id p = q) (filter (\<lambda>p. post_id p \<noteq> pid) xs)
                 = find (\<lambda>p. post_id p = q) xs" for xs
      by (induction xs) auto
    then have "fetch_post (d\<lparr>Posts := filter (\<lambda>p. post_id p \<noteq> pid) (Posts d)\<rparr>) q
                 = fetch_post d q"
      by (simp add: fetch_post_def)
    with assms s show ?thesis by simp
  qed
qed

lemma snd_created_response [simp]: "snd (created_response c pid) = c"
  by (simp add: created_response_def Let_def split: option.splits)

lemma create_post_body_Posts:
  "Posts (snd (create_post_body d newp creator now)) = Posts (insert_post d newp creator now)"
  by (auto simp: create_post_body_def Let_def dest!: associate_interests_frame
        split: sum.splits option.splits)

lemma creator_after_create_body:
  assumes "fetch_post d q = Some row0"
  shows "map_option created_by (fetch_post (snd (create_post_body d newp creator now)) q)
           = Some (created_by row0)"
proof -
  have "fetch_post (snd (create_post_body d newp creator now)) q
          = fetch_post (insert_post d newp creator now) q"
    by (rule fetch_post_cong [OF create_post_body_Posts])
  also have "\<dots> = Some row0"
    using assms by (simp add: fetch_post_def insert_post_def find_append_first)
  finally show ?thesis by simp
qed

lemma snd_create_post: "snd (create_post d hs newp now) = d"
  by (simp add: create_post_def post_create_created_by_def split: sum.splits)

text \<open>
  Claim C6. For an existing post, an update or delete request that passes the identity
  check and whose \<open>created_by\<close> parameter differs from the stored creator fails with
  403 and leaves the store as it was. And no operation changes a stored \<open>created_by\<close>:
  after any update, delete or create, a post that existed before is either gone or has
  the creator it had.
\<close>

theorem ownership_enforced:
  "(get_firebase_uid_from_header hs = Inr uid \<and> fetch_post d pid = Some p \<and> created_by p \<noteq> cb
      \<longrightarrow> update_post d hs pid post cb im
            = (Inl (HTTPException 403 ''You can only update posts you created''), d)
        \<and> delete_post d hs pid cb
            = (Inl (HTTPException 403 ''You can only delete posts you created''), d))
   \<and> (fetch_post d q = Some row0 \<longrightarrow>
        (\<forall>d' \<in> {snd (update_post d hs pid post cb im), snd (delete_post d hs pid cb),
                 snd (create_post d hs newp now), snd (create_post_body d newp creator now)}.
           fetch_post d' q = None
           \<or> map_option created_by (fetch_post d' q) = Some (created_by row0)))"
proof (intro conjI impI)
  assume a: "get_firebase_uid_from_header hs = Inr uid \<and> fetch_post d pid = Some p
             \<and> created_by p \<noteq> cb"
  then show "update_post d hs pid post cb im
               = (Inl (HTTPException 403 ''You can only update posts you created''), d)"
    by (simp add: update_post_def)
  from a show "delete_post d hs pid cb
               = (Inl (HTTPException 403 ''You can only delete posts you created''), d)"
    by (simp add: delete_post_def)
next
  assume f: "fetch_post d q = Some row0"
  show "\<forall>d' \<in> {snd (update_post d hs pid post cb im), snd (delete_post d hs pid cb),
                 snd (create_post d hs newp now), snd (create_post_body d newp creator now)}.
           fetch_post d' q = None
           \<or> map_option created_by (fetch_post d' q) = Some (created_by row0)"
    using creator_after_update [OF f, of hs pid post cb im]
      creator_after_delete [OF f, of hs pid cb]
      creator_after_create_body [OF f, of newp creator now] f
    by (simp add: snd_create_post)
qed

theorem ownership_enforced_witness:
  "update_post example_db example_headers 1 example_update 8 None
     = (Inl (HTTPException 403 ''You can only update posts you created''), example_db)
   \<and> delete_post example_db example_headers 1 8
     = (Inl (HTTPException 403 ''You can only delete posts you created''), example_db)
   \<and> map_option created_by
        (fetch_post (snd (update_post example_db example_headers 1 example_update 7 None)) 1)
     = Some 7
   \<and> fetch_post (snd (delete_post example_db example_headers 1 7)) 1 = None"
proof -
  have ne: "created_by example_post \<noteq> 8"
    by (simp add: example_post_def)
  have del: "snd (delete_post example_db example_headers 1 7) = example_db\<lparr>Posts := []\<rparr>"
    by (simp add: delete_post_def auth_example fetch_example example_creator)
       (simp add: example_db_def example_post_def)
  have none: "fetch_post (example_db\<lparr>Posts := []\<rparr>) 1 = None"
    by (simp add: fetch_post_def)
  have a: "update_post example_db example_headers 1 example_update 8 None
             = (Inl (HTTPException 403 ''You can only update posts you created''), example_db)
           \<and> delete_post example_db example_headers 1 8
             = (Inl (HTTPException 403 ''You can only delete posts you created''), example_db)"
    using ownership_enforced [where hs = example_headers and uid = "''uid-1''"
        and d = example_db and pid = 1 and p = example_post and cb = 8
        and post = example_update and im = None and q = 1 and ?row0.0 = example_post
        and newp = example_create and now = example_time and creator = 7]
    by (simp add: auth_example fetch_example ne)
  have "fetch_post (example_db\<lparr>Posts := [example_post\<lparr>title := ''new''\<rparr>]\<rparr>) 1
          = Some (example_post\<lparr>title := ''new''\<rparr>)"
    by (simp add: fetch_post_def example_post_def)
  then have b: "map_option created_by
        (fetch_post (snd (update_post example_db example_headers 1 example_update 7 None)) 1)
          = Some 7"
    by (simp add: update_example_result example_creator)
  from a b del none show ?thesis by simp
qed

subsection \<open>Partial update\<close>

lemma fetch_post_update_row_other:
  assumes "q \<noteq> pid"
  shows "fetch_post (update_row d fl pid) q = fetch_post d q"
proof (cases "fetch_post d q")
  case None
  then show ?thesis by (simp add: fetch_post_update_row)
next
  case (Some x)
  with assms fetch_post_id [OF Some] show ?thesis
    by (simp add: fetch_post_update_row)
qed

lemma assignments_Val:
  "assignments post =
     (case upd_title post of Val v \<Rightarrow> [(''title'', v)] | _ \<Rightarrow> [])
     @ (case upd_body post of Val v \<Rightarrow> [(''body'', v)] | _ \<Rightarrow> [])
     @ (case upd_image_url post of Val v \<Rightarrow> [(''image_url'', v)] | _ \<Rightarrow> [])"
  by (simp add: assignments_def update_dict_def field_item_def split: field.splits)

lemma update_post_passes:
  assumes "get_firebase_uid_from_header hs = Inr uid"
    and "fetch_post d pid = Some p"
    and "created_by p = cb"
    and "if_match_passes d p pid im"
  shows "update_post d hs pid post cb im = update_post d hs pid post cb None"
  using assms by (auto simp: update_post_def if_match_passes_def truthy_def split: if_splits)

text \<open>
  Claim C7. For a request that passes the identity, existence, ownership and
  precondition checks: the column assignments are exactly the scalar fields of the
  payload that carry a value, in the order title, body, image_url; a payload that
  supplies only the title is answered 200, changes the title of the post and leaves its
  body, image_url and creation data, every other post and the association rows as they
  were; a payload that supplies no scalar field and no interest ids writes nothing and is
  answered 200 with the unchanged resource.
\<close>

theorem partial_update:
  assumes "get_firebase_uid_from_header hs = Inr uid"
    and "fetch_post d pid = Some p"
    and "created_by p = cb"
    and "if_match_passes d p pid im"
  shows "assignments post =
           (case upd_title post of Val v \<Rightarrow> [(''title'', v)] | _ \<Rightarrow> [])
           @ (case upd_body post of Val v \<Rightarrow> [(''body'', v)] | _ \<Rightarrow> [])
           @ (case upd_image_url post of Val v \<Rightarrow> [(''image_url'', v)] | _ \<Rightarrow> [])
       \<and> (post = \<lparr>upd_title = Val t, upd_body = Unset, upd_image_url = Unset,
                  upd_interest_ids = Unset\<rparr> \<longrightarrow>
            (let d' = update_row d [(''title'', t)] pid; p' = p\<lparr>title := t\<rparr> in
               update_post d hs pid post cb im
                 = (Inr \<lparr>status = 200, body = Some (PDict (response_dict d' p' pid)),
                        headers_out = [(''ETag'', quoted (generate_etag (response_dict d' p' pid)))]\<rparr>,
                    d')
               \<and> fetch_post d' pid = Some p'
               \<and> (\<forall>q. q \<noteq> pid \<longrightarrow> fetch_post d' q = fetch_post d q)
               \<and> PostInterests d' = PostInterests d \<and> Interests d' = Interests d))
       \<and> (\<not> is_val (upd_title post) \<and> \<not> is_val (upd_body post)
            \<and> \<not> is_val (upd_image_url post) \<and> \<not> is_val (upd_interest_ids post) \<longrightarrow>
            update_post d hs pid post cb im
              = (Inr \<lparr>status = 200, body = Some (PDict (response_dict d p pid)),
                     headers_out = [(''ETag'', quoted (generate_etag (response_dict d p pid)))]\<rparr>,
                 d))"
proof (intro conjI impI)
  show "assignments post =
           (case upd_title post of Val v \<Rightarrow> [(''title'', v)] | _ \<Rightarrow> [])
           @ (case upd_body post of Val v \<Rightarrow> [(''body'', v)] | _ \<Rightarrow> [])
           @ (case upd_image_url post of Val v \<Rightarrow> [(''image_url'', v)] | _ \<Rightarrow> [])"
    by (rule assignments_Val)
next
  assume t: "post = \<lparr>upd_title = Val t, upd_body = Unset, upd_image_url = Unset,
                     upd_interest_ids = Unset\<rparr>"
  have pid: "post_id p = pid" using assms(2) by (rule fetch_post_id)
  have a: "assignments post = [(''title'', t)]"
    by (simp add: t assignments_Val)
  have i: "popped_interest_ids post = None"
    by (simp add: t popped_interest_ids_def)
  have f: "fetch_post (update_row d [(''title'', t)] pid) pid = Some (p\<lparr>title := t\<rparr>)"
    using assms(2) pid by (simp add: fetch_post_update_row)
  have u: "update_post d hs pid post cb None
             = updated_response (update_row d [(''title'', t)] pid) pid"
    using assms(1-3) by (simp add: update_post_def truthy_def a i)
  show "let d' = update_row d [(''title'', t)] pid; p' = p\<lparr>title := t\<rparr> in
          update_post d hs pid post cb im
            = (Inr \<lparr>status = 200, body = Some (PDict (response_dict d' p' pid)),
                   headers_out = [(''ETag'', quoted (generate_etag (response_dict d' p' pid)))]\<rparr>,
               d')
          \<and> fetch_post d' pid = Some p'
          \<and> (\<forall>q. q \<noteq> pid \<longrightarrow> fetch_post d' q = fetch_post d q)
          \<and> PostInterests d' = PostInterests d \<and> Interests d' = Interests d"
    unfolding Let_def update_post_passes [OF assms] u updated_response_Some [OF f]
    using f by (simp add: fetch_post_update_row_other) (simp add: update_row_def)
next
  assume n: "\<not> is_val (upd_title post) \<and> \<not> is_val (upd_body post)
            \<and> \<not> is_val (upd_image_url post) \<and> \<not> is_val (upd_interest_ids post)"
  then have a: "assignments post = []"
    by (auto simp: assignments_Val is_val_def split: field.splits)
  from n have i: "popped_interest_ids post = None"
    by (auto simp: popped_interest_ids_def is_val_def split: field.splits)
  have "update_post d hs pid post cb None = updated_response d pid"
    using assms(1-3) by (simp add: update_post_def truthy_def a i)
  then show "update_post d hs pid post cb im
              = (Inr \<lparr>status = 200, body = Some (PDict (response_dict d p pid)),
                     headers_out = [(''ETag'', quoted (generate_etag (response_dict d p pid)))]\<rparr>,
                 d)"
    by (simp add: update_post_passes [OF assms] updated_response_Some [OF assms(2)])
qed

theorem partial_update_witness:
  "snd (update_post example_db example_headers 1 example_update 7 None)
     = example_db\<lparr>Posts := [example_post\<lparr>title := ''new''\<rparr>]\<rparr>
   \<and> update_post example_db example_headers 1 example_empty_update 7 None
     = (Inr \<lparr>status = 200, body = Some (PDict (response_dict example_db example_post 1)),
            headers_out = [(''ETag'',
               quoted (generate_etag (response_dict example_db example_post 1)))]\<rparr>,
        example_db)"
proof -
  have p: "if_match_passes example_db example_post 1 None"
    by (simp add: if_match_passes_def truthy_def)
  have n: "\<not> is_val (upd_title example_empty_update) \<and> \<not> is_val (upd_body example_empty_update)
      \<and> \<not> is_val (upd_image_url example_empty_update)
      \<and> \<not> is_val (upd_interest_ids example_empty_update)"
    by (simp add: is_val_def example_empty_update_def)
  show ?thesis
    using partial_update [OF auth_example fetch_example example_creator p,
            of example_update "''new''"]
      partial_update [OF auth_example fetch_example example_creator p,
            of example_empty_update] n
    by (simp add: example_update_def [symmetric] Let_def example_update_row)
qed

subsection \<open>Determinism of the fingerprint\<close>

lemma sort_key_fst_unique:
  assumes "distinct (map fst xs)" and "distinct (map fst ys)" and "set xs = set ys"
  shows "sort_key fst xs = sort_key fst ys"
proof (rule map_sorted_distinct_set_unique [where f = fst])
  show "inj_on fst (set (sort_key fst xs) \<union> set (sort_key fst ys))"
    using assms by (simp add: distinct_map)
  show "distinct (map fst (sort_key fst xs))"
    using assms(1) by (simp add: distinct_map)
  show "distinct (map fst (sort_key fst ys))"
    using assms(2) by (simp add: distinct_map)
  show "set (sort_key fst xs) = set (sort_key fst ys)"
    using assms(3) by simp
qed simp_all

lemma map_eq_zipI:
  "length xs = length ys \<Longrightarrow> (\<And>x y. (x, y) \<in> set (zip xs ys) \<Longrightarrow> f x = f y)
   \<Longrightarrow> map f xs = map f ys"
proof (induction xs arbitrary: ys)
  case Nil
  then show ?case by simp
next
  case (Cons x xs)
  then show ?case by (cases ys) auto
qed

lemma dumps_py_equal: "py_equal a b \<Longrightarrow> dumps a = dumps b"
proof (induction a b rule: py_equal.induct)
  case (1 xs ys)
  then have "map dumps xs = map dumps ys"
    by (intro map_eq_zipI) (auto simp: list_all_iff)
  then show ?case by simp
next
  case (2 kvs kvs')
  let ?f = "\<lambda>(k, v). (k, dumps v)"
  from "2.prems" have dk: "distinct (map fst kvs)" and dk': "distinct (map fst kvs')"
    and keys: "set (map fst kvs) = set (map fst kvs')"
    and la: "list_all (\<lambda>(k, v). case map_of kvs' k of None \<Rightarrow> False
                                   | Some v' \<Rightarrow> py_equal v v') kvs"
    by simp_all
  have all: "\<exists>v'. map_of kvs' k = Some v' \<and> py_equal v v'" if "(k, v) \<in> set kvs" for k v
    using la that by (fastforce simp: list_all_iff split: option.splits)
  have step: "dumps v = dumps v'"
    if "(k, v) \<in> set kvs" "map_of kvs' k = Some v'" "py_equal v v'" for k v v'
    by (rule "2.IH" [OF that(1) refl that(2) that(3)])
  have seteq: "set (map ?f kvs) = set (map ?f kvs')"
  proof (intro equalityI subsetI)
    fix e assume "e \<in> set (map ?f kvs)"
    then obtain k v where kv: "(k, v) \<in> set kvs" and e: "e = (k, dumps v)" by auto
    from all [OF kv] obtain v' where m: "map_of kvs' k = Some v'" and q: "py_equal v v'"
      by blast
    from m have "(k, v') \<in> set kvs'" by (rule map_of_SomeD)
    moreover have "dumps v = dumps v'" using kv m q by (rule step)
    ultimately show "e \<in> set (map ?f kvs')" using e by force
  next
    fix e assume "e \<in> set (map ?f kvs')"
    then obtain k v' where kv': "(k, v') \<in> set kvs'" and e: "e = (k, dumps v')" by auto
    then have "k \<in> set (map fst kvs)" using keys by force
    then obtain v where kv: "(k, v) \<in> set kvs" by auto
    from all [OF kv] obtain v'' where m: "map_of kvs' k = Some v''" and q: "py_equal v v''"
      by blast
    from dk' kv' have "map_of kvs' k = Some v'" by simp
    with m have "v'' = v'" by simp
    with kv m q have "dumps v = dumps v'" using step by blast
    with kv e show "e \<in> set (map ?f kvs)" by force
  qed
  have k: "map fst (map ?f xs) = map fst xs" for xs :: pydict
    by (induction xs) auto
  have d1: "distinct (map fst (map ?f kvs))"
    unfolding k by (rule dk)
  have d2: "distinct (map fst (map ?f kvs'))"
    unfolding k by (rule dk')
  have "sort_key fst (map ?f kvs) = sort_key fst (map ?f kvs')"
    by (rule sort_key_fst_unique [OF d1 d2 seteq])
  then show ?case by simp
qed simp_all

text \<open>
  Claim C2. For every pair of structurally equal payloads (same key set, same values,
  whatever the insertion order of the keys, at every level), \<open>generate_etag\<close> returns
  the same token, and the token has the fixed length of 32 lowercase hex digits.
\<close>

theorem generate_etag_deterministic:
  assumes "py_equal (PDict a) (PDict b)"
  shows "generate_etag a = generate_etag b
       \<and> length (generate_etag a) = 32
       \<and> set (generate_etag a) \<subseteq> set ''0123456789abcdef''"
  using dumps_py_equal [OF assms] length_generate_etag [of a] set_generate_etag [of a]
  by (simp add: generate_etag_def)

theorem generate_etag_deterministic_witness:
  "example_payload_a \<noteq> example_payload_b
   \<and> generate_etag example_payload_a = generate_etag example_payload_b
   \<and> length (generate_etag example_payload_a) = 32"
proof -
  have "py_equal (PDict example_payload_a) (PDict example_payload_b)"
    by (auto simp add: example_payload_a_def example_payload_b_def)
  note t = generate_etag_deterministic [OF this]
  have "example_payload_a \<noteq> example_payload_b"
    by (simp add: example_payload_a_def example_payload_b_def)
  with t show ?thesis by (simp add: length_generate_etag)
qed

subsection \<open>Filters of the collection query\<close>

lemma like_percent [simp]: "like_match ''%'' t"
  by (induction t) auto

lemma like_prefix:
  "wildcard_free s \<Longrightarrow> like_match (s @ ''%'') t = ci_prefix s t"
proof (induction s arbitrary: t)
  case Nil
  then show ?case by simp
next
  case (Cons c s)
  then show ?case by (cases t) (auto simp: wildcard_free_def)
qed

lemma like_contains:
  assumes "wildcard_free s"
  shows "like_match (CHR ''%'' # s @ ''%'') t = ci_contains s t"
proof (induction t)
  case Nil
  show ?case using like_prefix [OF assms, of "[]"] by simp
next
  case (Cons d t)
  show ?case using like_prefix [OF assms, of "d # t"] Cons by simp
qed

lemma search_matches_contains:
  "wildcard_free s \<Longrightarrow> search_matches s p = text_contains s p"
  by (simp add: search_matches_def text_contains_def like_contains split: option.splits)

lemma matching_filters:
  "matching d (where_clauses iid cbq search) = filter (passes_filters d iid cbq search) (Posts d)"
  unfolding matching_def
  by (rule filter_cong [OF refl])
     (auto simp: where_clauses_def passes_filters_def search_matches_def
           split: option.splits)

lemma example_rows: "Posts example_db = [example_post]"
  by (simp add: example_db_def)

lemma example_passes:
  "passes_filters example_db (Some 1) (Some 7) (Some ''ELL'') example_post"
  by code_simp

lemma example_wildcard_free: "wildcard_free ''ELL''"
  by code_simp

text \<open>
  What the handler lists. For a request that passes validation and the identity check
  the response holds the page (newest first, \<open>skip\<close> rows dropped, at most \<open>limit\<close>
  rows) of the posts that pass every clause the handler built, and counts all of them.
  A clause is built for an \<open>interest_id\<close> and a \<open>created_by\<close> other than 0 and for a
  non-empty \<open>search\<close>; the search clause is \<open>LIKE '%search%'\<close> on title or body, which
  for a search string without percent, underscore and backslash is containment as a
  case-insensitive substring.
\<close>

lemma list_filters:
  assumes "get_firebase_uid_from_header hs = Inr uid"
    and "0 \<le> skip" and "1 \<le> limit" and "limit \<le> 100"
  shows "map_sum id body (get_posts d hs skip limit iid cbq search)
           = Inr (Some (PDict (list_body
               (map (\<lambda>p. PDict (enrich_item d p))
                  (take (nat limit) (drop (nat skip)
                     (sort_key (\<lambda>p. - datetime_key (created_at p))
                        (filter (passes_filters d iid cbq search) (Posts d))))))
               (int (length (filter (passes_filters d iid cbq search) (Posts d))))
               skip limit)))
       \<and> (wildcard_free s \<longrightarrow> search_matches s p = text_contains s p)"
  using assms
  by (simp add: get_posts_def Let_def page_rows_def matching_filters search_matches_contains)

lemma list_filters_example:
  "map_sum id body (get_posts example_db example_headers 0 10 (Some 1) (Some 7) (Some ''ELL''))
     = Inr (Some (PDict (list_body [PDict (enrich_item example_db example_post)] 1 0 10)))
   \<and> text_contains ''ELL'' example_post"
proof -
  have "search_matches ''ELL'' example_post"
    using example_passes by (simp add: passes_filters_def)
  then show ?thesis
    using list_filters [OF auth_example, of 0 10 example_db "Some 1" "Some 7" "Some ''ELL''"
        "''ELL''" example_post]
    by (simp add: example_rows example_passes example_wildcard_free)
qed

text \<open>
  Claim C9 fails on the code for \<open>created_by=0\<close>. The parameter is supplied, so the
  results should be restricted to posts whose creator is 0, and the store holds none.
  But the guard \<open>if created_by:\<close> (line 109) is a truth test that drops the value 0:
  no clause is added and the response lists the post of creator 7, with total 1. For
  the value 8 the clause is added and the response lists nothing.
\<close>

theorem zero_creator_filter_ignored:
  "map_sum id body (get_posts example_db example_headers 0 10 None (Some 0) None)
     = Inr (Some (PDict (list_body [PDict (enrich_item example_db example_post)] 1 0 10)))
   \<and> created_by example_post = 7
   \<and> map_sum id body (get_posts example_db example_headers 0 10 None (Some 8) None)
     = Inr (Some (PDict (list_body [] 0 0 10)))"
  by (simp add: get_posts_def auth_example Let_def page_rows_def matching_def where_clauses_def
        example_rows example_creator)

text \<open>The search string is put into the pattern as it is, so its wildcards act: an
  underscore matches any one character. And \<open>ci_contains\<close> is containment of a
  substring equal to the search string up to letter case.\<close>

lemma underscore_search_example:
  "search_matches ''_'' example_post \<and> \<not> text_contains ''_'' example_post"
  by code_simp

lemma ci_prefix_iff:
  "ci_prefix s t \<longleftrightarrow> (\<exists>w v. t = w @ v \<and> list_all2 ci_eq s w)"
proof (induction s t rule: ci_prefix.induct)
  case (1 t)
  then show ?case by simp
next
  case (2 c s)
  then show ?case by simp
next
  case (3 c s d t)
  show ?case
  proof
    assume "ci_prefix (c # s) (d # t)"
    then obtain w v where "ci_eq c d" "t = w @ v" "list_all2 ci_eq s w"
      using 3 by auto
    then have "d # t = (d # w) @ v \<and> list_all2 ci_eq (c # s) (d # w)" by simp
    then show "\<exists>w v. d # t = w @ v \<and> list_all2 ci_eq (c # s) w" by blast
  next
    assume "\<exists>w v. d # t = w @ v \<and> list_all2 ci_eq (c # s) w"
    then obtain w v where a: "d # t = w @ v" and b: "list_all2 ci_eq (c # s) w" by blast
    from b obtain e w' where w: "w = e # w'" and "ci_eq c e" and "list_all2 ci_eq s w'"
      by (auto simp: list_all2_Cons1)
    with a 3 show "ci_prefix (c # s) (d # t)" by auto
  qed
qed

lemma ci_contains_iff:
  "ci_contains s t \<longleftrightarrow> (\<exists>u w v. t = u @ w @ v \<and> list_all2 ci_eq s w)"
proof (induction t)
  case Nil
  then show ?case by (auto simp: ci_prefix_iff)
next
  case (Cons d t)
  show ?case
  proof
    assume "ci_contains s (d # t)"
    then consider "ci_prefix s (d # t)" | "ci_contains s t" by auto
    then show "\<exists>u w v. d # t = u @ w @ v \<and> list_all2 ci_eq s w"
    proof cases
      case 1
      then obtain w v where "d # t = [] @ w @ v \<and> list_all2 ci_eq s w"
        by (auto simp: ci_prefix_iff)
      then show ?thesis by blast
    next
      case 2
      then obtain u w v where "t = u @ w @ v" "list_all2 ci_eq s w"
        using Cons by blast
      then have "d # t = (d # u) @ w @ v \<and> list_all2 ci_eq s w" by simp
      then show ?thesis by blast
    qed
  next
    assume "\<exists>u w v. d # t = u @ w @ v \<and> list_all2 ci_eq s w"
    then obtain u w v where a: "d # t = u @ w @ v" and b: "list_all2 ci_eq s w" by blast
    show "ci_contains s (d # t)"
    proof (cases u)
      case Nil
      with a b have "ci_prefix s (d # t)" by (auto simp: ci_prefix_iff)
      then show ?thesis by simp
    next
      case (Cons e u')
      with a have "t = u' @ w @ v" by simp
      with b Cons.IH have "ci_contains s t" by blast
      then show ?thesis by simp
    qed
  qed
qed

subsection \<open>The create path\<close>

text \<open>
  As the sources stand, a create request that passes the identity check fails on the read
  of \<open>post.created_by\<close>, before any statement reaches the store. The rest of the
  handler, run with a creator, commits the new post before it validates the interest ids:
  with interest 99 missing it answers 400 and the post stays, without associations.
\<close>

lemma create_post_attribute_error:
  "get_firebase_uid_from_header hs = Inr uid \<Longrightarrow>
   create_post d hs post now = (Inl (Unhandled ''AttributeError''), d)"
  by (simp add: create_post_def post_create_created_by_def)

lemma create_body_invalid_interest_keeps_post:
  "create_post_body example_db example_create 7 example_time
     = (Inl (HTTPException 400 ''Interest 99 not found''),
        example_db\<lparr>Posts := [example_post,
             \<lparr>post_id = 2, title = ''t'', body_text = None, image_url = None,
              created_by = 7, created_at = example_time\<rparr>],
           next_post_id := 3\<rparr>)"
proof -
  have s: "str_int 99 = ''99''" by code_simp
  show ?thesis
    by (simp add: create_post_body_def insert_post_def example_db_def example_create_def
          Let_def s)
qed

end
